theory Spec2Isabelle
  imports Complex_Main "HOL-Library.Word"
begin

section \<open>Data model of \<open>elementgeometry.h\<close>\<close>

text \<open>
  The header \<open>src/oofemlib/elementgeometry.h\<close> declares the class \<open>ElementGeometry\<close>
  and defines a number of its members inline, among them the two \<open>ipEvaluator\<close>
  templates. The classes it only names (\<open>IntegrationRule\<close>, \<open>GaussPoint\<close>,
  \<open>TimeStep\<close>, \<open>CommunicationBuffer\<close>, \<open>CrossSection\<close>) live in other headers.
\<close>

text \<open>The enum \<open>elementParallelMode\<close> (lines 97-101).\<close>

datatype elementParallelMode = Element_local | Element_remote


text \<open>
  Modelled from the spec: \<open>IntegrationRule\<close> (declared in \<open>integrationrule.h\<close>, included
  but not part of the sources). The spec describes it as an ordered, owned sequence of
  GaussPoints; \<open>giveNumberOfIntegrationPoints\<close> is the length of that sequence and
  \<open>getIntegrationPoint(i)\<close> its \<open>i\<close>-th member, counted from zero. A read outside the
  sequence has no defined result in C++ and is \<open>None\<close> here.
\<close>

record 'gp IntegrationRule =
  gaussPointArray :: "'gp list"

definition giveNumberOfIntegrationPoints :: "'gp IntegrationRule \<Rightarrow> int" where
  "giveNumberOfIntegrationPoints rule = int (length (gaussPointArray rule))"

definition getIntegrationPoint :: "'gp IntegrationRule \<Rightarrow> int \<Rightarrow> 'gp option" where
  "getIntegrationPoint rule n =
     (if 0 \<le> n \<and> n < int (length (gaussPointArray rule))
      then Some (gaussPointArray rule ! nat n) else None)"

text \<open>
  Modelled from the spec: \<open>TimeStep\<close> (declared in \<open>timestep.h\<close>, forward-declared
  here). The spec uses one thing of a step, its time.
\<close>

record TimeStep =
  targetTime :: real


text \<open>
  The protected data members of \<open>ElementGeometry\<close> (lines 126-171), with \<open>number\<close>
  inherited from \<open>FEMComponent\<close>. \<open>IntArray\<close> is a list of C++ \<open>int\<close>s, \<open>FloatMatrix\<close> a list
  of rows. \<open>IntegrationRule **integrationRulesArray\<close> is an array of owned rules whose
  extent the class keeps separately in \<open>numberOfIntegrationRules\<close>; the model keeps both
  fields, so that a count that disagrees with the array is representable.
\<close>

record 'gp ElementGeometry =
  number :: int
  numberOfDofMans :: int
  dofManArray :: "int list"
  material :: int
  crossSection :: int
  activityTimeFunction :: int
  numberOfIntegrationRules :: int
  integrationRulesArray :: "'gp IntegrationRule list"
  elemLocalCS :: "real list list"
  globalNumber :: int
  numberOfGaussPoints :: int
  parallel_mode :: elementParallelMode
  partitions :: "int list"

text \<open>
  Failures of the model. \<open>OutOfBounds\<close> stands for a read of \<open>integrationRulesArray\<close> or of
  a rule's point array outside its extent (undefined behaviour in C++);
  \<open>ProtocolDesync\<close> for the fatal error of the partition exchange.
\<close>

datatype error = OutOfBounds | ProtocolDesync

text \<open>The subscript \<open>integrationRulesArray [ i ]\<close> with the bounds made explicit.\<close>

definition integrationRuleAt :: "'gp ElementGeometry \<Rightarrow> int \<Rightarrow> 'gp IntegrationRule option" where
  "integrationRuleAt e i =
     (if 0 \<le> i \<and> i < int (length (integrationRulesArray e))
      then Some (integrationRulesArray e ! nat i) else None)"

text \<open>
  The extent invariant of the class: \<open>numberOfIntegrationRules\<close> is the number of rules
  held in \<open>integrationRulesArray\<close>.
\<close>

definition rulesAttached :: "'gp ElementGeometry \<Rightarrow> bool" where
  "rulesAttached e \<longleftrightarrow>
     numberOfIntegrationRules e = int (length (integrationRulesArray e))"

section \<open>Inline members\<close>

text \<open>Line 350: \<open>int giveNumberOfDofManagers() const { return numberOfDofMans; }\<close>\<close>

definition giveNumberOfDofManagers :: "'gp ElementGeometry \<Rightarrow> int" where
  "giveNumberOfDofManagers e = numberOfDofMans e"

text \<open>Line 356: \<open>virtual int giveNumberOfNodes() const { return numberOfDofMans; }\<close>\<close>

definition giveNumberOfNodes :: "'gp ElementGeometry \<Rightarrow> int" where
  "giveNumberOfNodes e = numberOfDofMans e"

text \<open>Line 401: \<open>int giveActivityTimeFunction() { return activityTimeFunction; }\<close>\<close>

definition giveActivityTimeFunction :: "'gp ElementGeometry \<Rightarrow> int" where
  "giveActivityTimeFunction e = activityTimeFunction e"

text \<open>
  Line 415: \<open>virtual int checkConsistency() { return 1; }\<close>. The member is not \<open>const\<close>,
  so the model returns the receiver beside the result.
\<close>

definition checkConsistency :: "'gp ElementGeometry \<Rightarrow> int \<times> 'gp ElementGeometry" where
  "checkConsistency e = (1, e)"

text \<open>Line 457: \<open>virtual int giveDefaultIntegrationRule() const { return 0; }\<close>\<close>

definition giveDefaultIntegrationRule :: "'gp ElementGeometry \<Rightarrow> int" where
  "giveDefaultIntegrationRule e = 0"

text \<open>Line 491: \<open>int giveNumberOfIntegrationRules() { return this->numberOfIntegrationRules; }\<close>\<close>

definition giveNumberOfIntegrationRules :: "'gp ElementGeometry \<Rightarrow> int" where
  "giveNumberOfIntegrationRules e = numberOfIntegrationRules e"

text \<open>
  Lines 463-469, \<open>giveDefaultIntegrationRulePtr\<close>. The returned pointer is an option,
  \<open>None\<close> being \<open>NULL\<close>.
\<close>

definition giveDefaultIntegrationRulePtr ::
  "'gp ElementGeometry \<Rightarrow> error + 'gp IntegrationRule option" where
  "giveDefaultIntegrationRulePtr e =
     (if giveNumberOfIntegrationRules e = 0 then Inr None
      else (case integrationRuleAt e (giveDefaultIntegrationRule e) of
              None \<Rightarrow> Inl OutOfBounds
            | Some rule \<Rightarrow> Inr (Some rule)))"

text \<open>
  Line 612: \<open>virtual int adaptiveUpdate(TimeStep *tStep) { return 1; }\<close>. The receiver
  is returned beside the result, as for \<open>checkConsistency\<close>.
\<close>

definition adaptiveUpdate :: "'gp ElementGeometry \<Rightarrow> TimeStep \<Rightarrow> int \<times> 'gp ElementGeometry" where
  "adaptiveUpdate e tStep = (1, e)"

section \<open>Integration-point traversal\<close>

text \<open>
  Lines 800-813, the plain \<open>ipEvaluator\<close>: two nested counting loops, the outer over
  \<open>ir = 0 .. numberOfIntegrationRules - 1\<close>, the inner over \<open>ip = 0 .. nip - 1\<close> with
  \<open>nip\<close> read once per rule, calling \<open>(src->*f)(gp)\<close> on each point. The member
  function \<open>f\<close> acts on the object \<open>src\<close>, whose state is \<open>'st\<close>; it receives the point
  and leaves the element's rule and point arrays as they are. Each loop is a recursive
  function in its counter, started at 0. The counters are C++ \<open>int\<close>s: a counter is
  incremented only while it is below its bound, so it never leaves the \<open>int\<close> range.
\<close>

function ipLoop ::
  "('gp \<Rightarrow> 'st \<Rightarrow> 'st) \<Rightarrow> 'gp IntegrationRule \<Rightarrow> int \<Rightarrow> int \<Rightarrow> 'st \<Rightarrow> error + 'st" where
  "ipLoop f rule nip ip s =
     (if ip < nip
      then (case getIntegrationPoint rule ip of
              None \<Rightarrow> Inl OutOfBounds
            | Some gp \<Rightarrow> ipLoop f rule nip (ip + 1) (f gp s))
      else Inr s)"
  by pat_completeness auto
termination
  by (relation "measure (\<lambda>(f, rule, nip, ip, s). nat (nip - ip))") auto

function irLoop ::
  "('gp \<Rightarrow> 'st \<Rightarrow> 'st) \<Rightarrow> 'gp ElementGeometry \<Rightarrow> int \<Rightarrow> 'st \<Rightarrow> error + 'st" where
  "irLoop f e ir s =
     (if ir < numberOfIntegrationRules e
      then (case integrationRuleAt e ir of
              None \<Rightarrow> Inl OutOfBounds
            | Some rule \<Rightarrow>
                (case ipLoop f rule (giveNumberOfIntegrationPoints rule) 0 s of
                   Inl err \<Rightarrow> Inl err
                 | Inr s' \<Rightarrow> irLoop f e (ir + 1) s'))
      else Inr s)"
  by pat_completeness auto
termination
  by (relation "measure (\<lambda>(f, e, ir, s). nat (numberOfIntegrationRules e - ir))") auto

definition ipEvaluator ::
  "'gp ElementGeometry \<Rightarrow> ('gp \<Rightarrow> 'st \<Rightarrow> 'st) \<Rightarrow> 'st \<Rightarrow> error + 'st" where
  "ipEvaluator e f src = irLoop f e 0 src"

text \<open>
  Lines 815-828, the overload that passes an extra argument \<open>S &_val\<close> to each call:
  \<open>(src->*f)(gp, _val)\<close> may change both \<open>src\<close> and \<open>_val\<close>.
\<close>

function ipLoop_val ::
  "('gp \<Rightarrow> 'v \<Rightarrow> 'st \<Rightarrow> 'st \<times> 'v) \<Rightarrow> 'gp IntegrationRule \<Rightarrow> int \<Rightarrow> int \<Rightarrow> 'st \<times> 'v
     \<Rightarrow> error + 'st \<times> 'v" where
  "ipLoop_val f rule nip ip sv =
     (if ip < nip
      then (case getIntegrationPoint rule ip of
              None \<Rightarrow> Inl OutOfBounds
            | Some gp \<Rightarrow> ipLoop_val f rule nip (ip + 1) (f gp (snd sv) (fst sv)))
      else Inr sv)"
  by pat_completeness auto
termination
  by (relation "measure (\<lambda>(f, rule, nip, ip, sv). nat (nip - ip))") auto

function irLoop_val ::
  "('gp \<Rightarrow> 'v \<Rightarrow> 'st \<Rightarrow> 'st \<times> 'v) \<Rightarrow> 'gp ElementGeometry \<Rightarrow> int \<Rightarrow> 'st \<times> 'v
     \<Rightarrow> error + 'st \<times> 'v" where
  "irLoop_val f e ir sv =
     (if ir < numberOfIntegrationRules e
      then (case integrationRuleAt e ir of
              None \<Rightarrow> Inl OutOfBounds
            | Some rule \<Rightarrow>
                (case ipLoop_val f rule (giveNumberOfIntegrationPoints rule) 0 sv of
                   Inl err \<Rightarrow> Inl err
                 | Inr sv' \<Rightarrow> irLoop_val f e (ir + 1) sv'))
      else Inr sv)"
  by pat_completeness auto
termination
  by (relation "measure (\<lambda>(f, e, ir, sv). nat (numberOfIntegrationRules e - ir))") auto

definition ipEvaluator_val ::
  "'gp ElementGeometry \<Rightarrow> ('gp \<Rightarrow> 'v \<Rightarrow> 'st \<Rightarrow> 'st \<times> 'v) \<Rightarrow> 'st \<Rightarrow> 'v \<Rightarrow> error + 'st \<times> 'v" where
  "ipEvaluator_val e f src val = irLoop_val f e 0 (src, val)"

text \<open>The points of an element in storage order: rule after rule, point after point.\<close>

definition integrationPoints :: "'gp ElementGeometry \<Rightarrow> 'gp list" where
  "integrationPoints e = concat (map gaussPointArray (integrationRulesArray e))"

section \<open>Members declared in the header and defined elsewhere\<close>










text \<open>
  Modelled from the spec: \<open>isActivated\<close> (declared at line 420, body not in the header). It
  evaluates the activity-time-function at the step's time, zero meaning inactive. The
  function is found in the domain under the index \<open>giveActivityTimeFunction\<close>
  (\<open>giveFunction\<close>, a parameter); components are numbered from one, and index 0 says
  that the element has no activity-time-function.
\<close>

definition isActivated ::
  "(int \<Rightarrow> real \<Rightarrow> real) \<Rightarrow> 'gp ElementGeometry \<Rightarrow> TimeStep \<Rightarrow> bool" where
  "isActivated giveFunction e tStep =
     (if giveActivityTimeFunction e = 0 then True
      else giveFunction (giveActivityTimeFunction e) (targetTime tStep) \<noteq> 0)"

text \<open>
  Modelled from the spec: \<open>updateLocalNumbering\<close> (declared at line 629, body not in the
  header). It applies the caller's remapping function to every stored entity reference:
  the dof-manager indices, the global number and the partition identifiers.
\<close>

definition updateLocalNumbering ::
  "(int \<Rightarrow> int) \<Rightarrow> 'gp ElementGeometry \<Rightarrow> 'gp ElementGeometry" where
  "updateLocalNumbering f e =
     e\<lparr>dofManArray := map f (dofManArray e),
       globalNumber := f (globalNumber e),
       partitions := map f (partitions e)\<rparr>"

text \<open>
  Modelled from the spec: \<open>giveIPValue\<close> (declared at line 525, body not in the header). The
  evaluation is delegated to the cross-section collaborator, the parameter
  \<open>crossSectionValue\<close>, which has no value (\<open>None\<close>) for a quantity that the
  element/material combination does not provide. The member returns the answer array
  with its result code: zero-sized and 0 when there is no value, the value and 1
  otherwise.
\<close>

definition giveIPValue ::
  "('gp \<Rightarrow> 'ist \<Rightarrow> TimeStep \<Rightarrow> real list option) \<Rightarrow> 'gp ElementGeometry \<Rightarrow> 'gp \<Rightarrow> 'ist
     \<Rightarrow> TimeStep \<Rightarrow> real list \<times> int" where
  "giveIPValue crossSectionValue e gp ist tStep =
     (case crossSectionValue gp ist tStep of
        None \<Rightarrow> ([], 0)
      | Some answer \<Rightarrow> (answer, 1))"

section \<open>Example elements\<close>

text \<open>
  An element with two rules of two and one points (the points are plain numbers), and
  a source element with its remote mirror whose point state is one byte, sent as it is.
\<close>

definition exampleElement :: "nat ElementGeometry" where
  "exampleElement =
     \<lparr>number = 1, numberOfDofMans = 3, dofManArray = [4, 5, 6], material = 1,
      crossSection = 1, activityTimeFunction = 0, numberOfIntegrationRules = 2,
      integrationRulesArray = [\<lparr>gaussPointArray = [10, 11]\<rparr>, \<lparr>gaussPointArray = [12]\<rparr>],
      elemLocalCS = [], globalNumber = 7, numberOfGaussPoints = 3,
      parallel_mode = Element_local, partitions = [0, 1]\<rparr>"







section \<open>The traversal visits the points in storage order\<close>

declare ipLoop.simps [simp del] irLoop.simps [simp del]
  ipLoop_val.simps [simp del] irLoop_val.simps [simp del]

lemma ipLoop_drop:
  "0 \<le> ip \<Longrightarrow> nip = int (length (gaussPointArray rule)) \<Longrightarrow>
   ipLoop f rule nip ip s = Inr (fold f (drop (nat ip) (gaussPointArray rule)) s)"
proof (induction f rule nip ip s rule: ipLoop.induct)
  case (1 f rule nip ip s)
  show ?case
  proof (cases "ip < nip")
    case True
    with 1 have gp: "getIntegrationPoint rule ip = Some (gaussPointArray rule ! nat ip)"
      by (simp add: getIntegrationPoint_def)
    from True 1 have lt: "nat ip < length (gaussPointArray rule)" by simp
    have nxt: "nat (ip + 1) = Suc (nat ip)" using 1(2) by simp
    have "ipLoop f rule nip ip s = ipLoop f rule nip (ip + 1) (f (gaussPointArray rule ! nat ip) s)"
      using True gp by (subst ipLoop.simps) simp
    also have "\<dots> = Inr (fold f (drop (nat (ip + 1)) (gaussPointArray rule)) (f (gaussPointArray rule ! nat ip) s))"
      using 1 True gp by simp
    also have "\<dots> = Inr (fold f (drop (nat ip) (gaussPointArray rule)) s)"
      using lt by (simp add: nxt Cons_nth_drop_Suc [symmetric])
    finally show ?thesis .
  next
    case False
    with 1 have "drop (nat ip) (gaussPointArray rule) = []" by simp
    with False show ?thesis by (subst ipLoop.simps) simp
  qed
qed

lemma irLoop_drop:
  "0 \<le> ir \<Longrightarrow> rulesAttached e \<Longrightarrow>
   irLoop f e ir s =
     Inr (fold f (concat (map gaussPointArray (drop (nat ir) (integrationRulesArray e)))) s)"
proof (induction f e ir s rule: irLoop.induct)
  case (1 f e ir s)
  let ?rs = "integrationRulesArray e"
  from 1(3) have n: "numberOfIntegrationRules e = int (length ?rs)"
    by (simp add: rulesAttached_def)
  show ?case
  proof (cases "ir < numberOfIntegrationRules e")
    case True
    with 1(2) n have lt: "nat ir < length ?rs" by simp
    with 1(2) have at: "integrationRuleAt e ir = Some (?rs ! nat ir)"
      by (simp add: integrationRuleAt_def)
    have inner: "ipLoop f (?rs ! nat ir) (giveNumberOfIntegrationPoints (?rs ! nat ir)) 0 s
        = Inr (fold f (gaussPointArray (?rs ! nat ir)) s)"
      using ipLoop_drop [of 0 _ "?rs ! nat ir" f s]
      by (simp add: giveNumberOfIntegrationPoints_def)
    have nxt: "nat (ir + 1) = Suc (nat ir)" using 1(2) by simp
    have "irLoop f e ir s = irLoop f e (ir + 1) (fold f (gaussPointArray (?rs ! nat ir)) s)"
      using True at inner by (subst irLoop.simps) simp
    also have "\<dots> = Inr (fold f (concat (map gaussPointArray (drop (nat (ir + 1)) ?rs)))
        (fold f (gaussPointArray (?rs ! nat ir)) s))"
      using 1(1) [OF True at inner] 1(2,3) by simp
    also have "\<dots> = Inr (fold f (concat (map gaussPointArray (drop (nat ir) ?rs))) s)"
      using lt by (simp add: nxt Cons_nth_drop_Suc [symmetric])
    finally show ?thesis .
  next
    case False
    with 1(2) n have "drop (nat ir) ?rs = []" by simp
    with False show ?thesis by (subst irLoop.simps) simp
  qed
qed

lemma ipEvaluator_fold:
  "rulesAttached e \<Longrightarrow> ipEvaluator e f s = Inr (fold f (integrationPoints e) s)"
  using irLoop_drop [of 0 e f s] by (simp add: ipEvaluator_def integrationPoints_def)


lemma ipLoop_val_drop:
  "0 \<le> ip \<Longrightarrow> nip = int (length (gaussPointArray rule)) \<Longrightarrow>
   ipLoop_val f rule nip ip sv =
     Inr (fold (\<lambda>gp sv. f gp (snd sv) (fst sv)) (drop (nat ip) (gaussPointArray rule)) sv)"
proof (induction f rule nip ip sv rule: ipLoop_val.induct)
  case (1 f rule nip ip sv)
  let ?g = "\<lambda>gp sv. f gp (snd sv) (fst sv)"
  show ?case
  proof (cases "ip < nip")
    case True
    with 1 have gp: "getIntegrationPoint rule ip = Some (gaussPointArray rule ! nat ip)"
      by (simp add: getIntegrationPoint_def)
    from True 1 have lt: "nat ip < length (gaussPointArray rule)" by simp
    have nxt: "nat (ip + 1) = Suc (nat ip)" using 1(2) by simp
    have "ipLoop_val f rule nip ip sv
        = ipLoop_val f rule nip (ip + 1) (?g (gaussPointArray rule ! nat ip) sv)"
      using True gp by (subst ipLoop_val.simps) simp
    also have "\<dots> = Inr (fold ?g (drop (nat (ip + 1)) (gaussPointArray rule))
        (?g (gaussPointArray rule ! nat ip) sv))"
      using 1 True gp by simp
    also have "\<dots> = Inr (fold ?g (drop (nat ip) (gaussPointArray rule)) sv)"
      using lt by (simp add: nxt Cons_nth_drop_Suc [symmetric])
    finally show ?thesis .
  next
    case False
    with 1 have "drop (nat ip) (gaussPointArray rule) = []" by simp
    with False show ?thesis by (subst ipLoop_val.simps) simp
  qed
qed

lemma irLoop_val_drop:
  "0 \<le> ir \<Longrightarrow> rulesAttached e \<Longrightarrow>
   irLoop_val f e ir sv =
     Inr (fold (\<lambda>gp sv. f gp (snd sv) (fst sv))
            (concat (map gaussPointArray (drop (nat ir) (integrationRulesArray e)))) sv)"
proof (induction f e ir sv rule: irLoop_val.induct)
  case (1 f e ir sv)
  let ?rs = "integrationRulesArray e"
  let ?g = "\<lambda>gp sv. f gp (snd sv) (fst sv)"
  from 1(3) have n: "numberOfIntegrationRules e = int (length ?rs)"
    by (simp add: rulesAttached_def)
  show ?case
  proof (cases "ir < numberOfIntegrationRules e")
    case True
    with 1(2) n have lt: "nat ir < length ?rs" by simp
    with 1(2) have at: "integrationRuleAt e ir = Some (?rs ! nat ir)"
      by (simp add: integrationRuleAt_def)
    have inner: "ipLoop_val f (?rs ! nat ir) (giveNumberOfIntegrationPoints (?rs ! nat ir)) 0 sv
        = Inr (fold ?g (gaussPointArray (?rs ! nat ir)) sv)"
      using ipLoop_val_drop [of 0 _ "?rs ! nat ir" f sv]
      by (simp add: giveNumberOfIntegrationPoints_def)
    have nxt: "nat (ir + 1) = Suc (nat ir)" using 1(2) by simp
    have "irLoop_val f e ir sv
        = irLoop_val f e (ir + 1) (fold ?g (gaussPointArray (?rs ! nat ir)) sv)"
      using True at inner by (subst irLoop_val.simps) simp
    also have "\<dots> = Inr (fold ?g (concat (map gaussPointArray (drop (nat (ir + 1)) ?rs)))
        (fold ?g (gaussPointArray (?rs ! nat ir)) sv))"
      using 1(1) [OF True at inner] 1(2,3) by simp
    also have "\<dots> = Inr (fold ?g (concat (map gaussPointArray (drop (nat ir) ?rs))) sv)"
      using lt by (simp add: nxt Cons_nth_drop_Suc [symmetric])
    finally show ?thesis .
  next
    case False
    with 1(2) n have "drop (nat ir) ?rs = []" by simp
    with False show ?thesis by (subst irLoop_val.simps) simp
  qed
qed

lemma ipEvaluator_val_fold:
  "rulesAttached e \<Longrightarrow>
   ipEvaluator_val e f s v =
     Inr (fold (\<lambda>gp sv. f gp (snd sv) (fst sv)) (integrationPoints e) (s, v))"
  using irLoop_val_drop [of 0 e f "(s, v)"]
  by (simp add: ipEvaluator_val_def integrationPoints_def)

lemma integrationPoints_by_index:
  "rulesAttached e \<Longrightarrow>
   integrationPoints e =
     concat (map (\<lambda>ir. map (\<lambda>ip. gaussPointArray (integrationRulesArray e ! ir) ! ip)
                          [0..<length (gaussPointArray (integrationRulesArray e ! ir))])
                 [0..<nat (numberOfIntegrationRules e)])"
proof -
  assume a: "rulesAttached e"
  let ?rs = "integrationRulesArray e"
  have pts: "gaussPointArray r = map (\<lambda>ip. gaussPointArray r ! ip) [0..<length (gaussPointArray r)]"
    for r :: "'a IntegrationRule"
    by (rule nth_equalityI) simp_all
  have "map gaussPointArray ?rs
      = map (\<lambda>ir. map (\<lambda>ip. gaussPointArray (?rs ! ir) ! ip)
                          [0..<length (gaussPointArray (?rs ! ir))]) [0..<length ?rs]"
    by (rule nth_equalityI) (simp_all add: pts [symmetric])
  moreover from a have "nat (numberOfIntegrationRules e) = length ?rs"
    by (simp add: rulesAttached_def)
  ultimately show ?thesis by (simp add: integrationPoints_def)
qed

text \<open>
  C1: on an element whose rule count is the extent of its rule array, both forms of
  \<open>ipEvaluator\<close> return, and their effect is that of applying the operation once to each
  point of \<open>integrationPoints\<close> from left to right. The recorded sequence of visited
  points is \<open>integrationPoints\<close> itself, which lists, for \<open>ir\<close> from 0 to
  \<open>numberOfIntegrationRules - 1\<close> and within it for \<open>ip\<close> from 0 to the rule's point
  count minus 1, the point \<open>ip\<close> of rule \<open>ir\<close>: every position once, in that order.
\<close>

theorem ipEvaluator_visits_every_point_in_order:
  assumes "rulesAttached e"
  shows "ipEvaluator e f src = Inr (fold f (integrationPoints e) src)
    \<and> ipEvaluator_val e g src val
        = Inr (fold (\<lambda>gp sv. g gp (snd sv) (fst sv)) (integrationPoints e) (src, val))
    \<and> ipEvaluator e (\<lambda>gp visited. visited @ [gp]) [] = Inr (integrationPoints e)
    \<and> integrationPoints e =
        concat (map (\<lambda>ir. map (\<lambda>ip. gaussPointArray (integrationRulesArray e ! ir) ! ip)
                             [0..<length (gaussPointArray (integrationRulesArray e ! ir))])
                    [0..<nat (numberOfIntegrationRules e)])"
proof -
  have snoc: "fold (\<lambda>gp visited. visited @ [gp]) xs acc = acc @ xs" for xs acc :: "'a list"
    by (induction xs arbitrary: acc) simp_all
  have "ipEvaluator e (\<lambda>gp visited. visited @ [gp]) [] = Inr (integrationPoints e)"
    by (simp add: ipEvaluator_fold [OF assms] snoc)
  with ipEvaluator_fold [OF assms, of f src] ipEvaluator_val_fold [OF assms, of g src val]
    integrationPoints_by_index [OF assms]
  show ?thesis by blast
qed

theorem ipEvaluator_visits_every_point_in_order_witness:
  "rulesAttached exampleElement
   \<and> ipEvaluator exampleElement (\<lambda>gp visited. visited @ [gp]) [] = Inr [10, 11, 12]
   \<and> ipEvaluator_val exampleElement (\<lambda>gp total visited. (visited @ [gp], total + gp)) [] 0
       = Inr ([10, 11, 12], 33)"
proof -
  have a: "rulesAttached exampleElement"
    by (simp add: rulesAttached_def exampleElement_def)
  show ?thesis
    using a ipEvaluator_visits_every_point_in_order [OF a,
        of "\<lambda>gp visited. visited @ [gp]" "[]" "\<lambda>gp total visited. (visited @ [gp], total + gp)" 0]
    by (simp add: integrationPoints_def exampleElement_def)
qed

section \<open>Inline members\<close>

text \<open>
  C10: in the default implementation \<open>giveNumberOfNodes\<close> and \<open>giveNumberOfDofManagers\<close>
  agree on every element state, both being the stored \<open>numberOfDofMans\<close>.
\<close>

theorem giveNumberOfNodes_eq_giveNumberOfDofManagers:
  "giveNumberOfNodes e = giveNumberOfDofManagers e
   \<and> giveNumberOfDofManagers e = numberOfDofMans e"
  by (simp add: giveNumberOfNodes_def giveNumberOfDofManagers_def)

text \<open>
  C8: the base-class \<open>checkConsistency\<close> has no failing path; on every element state it
  returns the pass value 1, which is nonzero, and leaves the element as it was.
\<close>

theorem checkConsistency_passes:
  "fst (checkConsistency e) = 1 \<and> fst (checkConsistency e) \<noteq> 0
   \<and> snd (checkConsistency e) = e"
  by (simp add: checkConsistency_def)

text \<open>
  C6: the default \<open>adaptiveUpdate\<close> returns a nonzero result for every element and every
  time step and leaves the element state unchanged.
\<close>

theorem adaptiveUpdate_trivial_success:
  "fst (adaptiveUpdate e tStep) \<noteq> 0 \<and> snd (adaptiveUpdate e tStep) = e"
  by (simp add: adaptiveUpdate_def)

text \<open>
  C9: on an element whose rule count is the extent of its rule array,
  \<open>giveDefaultIntegrationRulePtr\<close> returns \<open>NULL\<close> exactly when
  \<open>giveNumberOfIntegrationRules\<close> is zero, and otherwise the rule stored at index
  \<open>giveDefaultIntegrationRule\<close>, which is 0; the array is not read on a rule-less
  element.
\<close>

theorem giveDefaultIntegrationRulePtr_null_iff_no_rules:
  assumes "rulesAttached e"
  shows "(giveDefaultIntegrationRulePtr e = Inr None \<longleftrightarrow> giveNumberOfIntegrationRules e = 0)
    \<and> (giveNumberOfIntegrationRules e \<noteq> 0 \<longrightarrow>
          giveDefaultIntegrationRulePtr e
            = Inr (Some (integrationRulesArray e ! nat (giveDefaultIntegrationRule e))))
    \<and> giveDefaultIntegrationRule e = 0"
  using assms
  by (auto simp: giveDefaultIntegrationRulePtr_def giveNumberOfIntegrationRules_def
      giveDefaultIntegrationRule_def integrationRuleAt_def rulesAttached_def)

theorem giveDefaultIntegrationRulePtr_null_iff_no_rules_witness:
  "rulesAttached exampleElement
   \<and> giveNumberOfIntegrationRules exampleElement \<noteq> 0
   \<and> giveDefaultIntegrationRulePtr exampleElement = Inr (Some \<lparr>gaussPointArray = [10, 11]\<rparr>)
   \<and> giveDefaultIntegrationRulePtr (exampleElement\<lparr>numberOfIntegrationRules := 0,
        integrationRulesArray := []\<rparr>) = Inr None"
proof -
  have a: "rulesAttached exampleElement"
    by (simp add: rulesAttached_def exampleElement_def)
  have b: "rulesAttached (exampleElement\<lparr>numberOfIntegrationRules := 0,
        integrationRulesArray := []\<rparr>)"
    by (simp add: rulesAttached_def)
  show ?thesis
    using a giveDefaultIntegrationRulePtr_null_iff_no_rules [OF a]
      giveDefaultIntegrationRulePtr_null_iff_no_rules [OF b]
    by (simp add: giveNumberOfIntegrationRules_def giveDefaultIntegrationRule_def
        exampleElement_def)
qed


section \<open>Partition exchange\<close>

















section \<open>Activity, renumbering and integration-point values\<close>

text \<open>
  C4: \<open>isActivated\<close> returns false exactly when the element has an
  activity-time-function and that function is zero at the step's time; an element
  without one is active at every step.
\<close>

theorem isActivated_false_iff_function_zero:
  "(\<not> isActivated giveFunction e tStep \<longleftrightarrow>
      giveActivityTimeFunction e \<noteq> 0
      \<and> giveFunction (giveActivityTimeFunction e) (targetTime tStep) = 0)
   \<and> (giveActivityTimeFunction e = 0 \<longrightarrow> isActivated giveFunction e tStep)"
  by (simp add: isActivated_def)

theorem isActivated_false_iff_function_zero_witness:
  "\<not> isActivated (\<lambda>i t. if t < 2 then 0 else 1) (exampleElement\<lparr>activityTimeFunction := 3\<rparr>)
       \<lparr>targetTime = 1\<rparr>
   \<and> isActivated (\<lambda>i t. if t < 2 then 0 else 1) (exampleElement\<lparr>activityTimeFunction := 3\<rparr>)
       \<lparr>targetTime = 2\<rparr>
   \<and> giveActivityTimeFunction exampleElement = 0
   \<and> isActivated (\<lambda>i t. 0) exampleElement \<lparr>targetTime = 1\<rparr>"
  using isActivated_false_iff_function_zero [of "\<lambda>i t. if t < 2 then 0 else 1"
      "exampleElement\<lparr>activityTimeFunction := 3\<rparr>" "\<lparr>targetTime = 1\<rparr>"]
    isActivated_false_iff_function_zero [of "\<lambda>i t. if t < 2 then 0 else 1"
      "exampleElement\<lparr>activityTimeFunction := 3\<rparr>" "\<lparr>targetTime = 2\<rparr>"]
    isActivated_false_iff_function_zero [of "\<lambda>i t. 0" exampleElement "\<lparr>targetTime = 1\<rparr>"]
  by (simp add: giveActivityTimeFunction_def exampleElement_def)

text \<open>
  C5: \<open>updateLocalNumbering\<close> with the identity remapping leaves the dof-manager index
  array, the global number and the partition list unchanged, and with them the whole
  element.
\<close>

theorem updateLocalNumbering_identity:
  "dofManArray (updateLocalNumbering (\<lambda>n. n) e) = dofManArray e
   \<and> globalNumber (updateLocalNumbering (\<lambda>n. n) e) = globalNumber e
   \<and> partitions (updateLocalNumbering (\<lambda>n. n) e) = partitions e
   \<and> updateLocalNumbering (\<lambda>n. n) e = e"
  by (simp add: updateLocalNumbering_def)

text \<open>
  C7: \<open>giveIPValue\<close> has no failing path. Its result code is nonzero exactly when the
  collaborator has a value for the quantity, and for a quantity without a value it
  returns the zero-sized answer with code 0.
\<close>

theorem giveIPValue_unsupported_is_empty:
  "(snd (giveIPValue crossSectionValue e gp ist tStep) \<noteq> 0
      \<longleftrightarrow> crossSectionValue gp ist tStep \<noteq> None)
   \<and> (crossSectionValue gp ist tStep = None \<longrightarrow>
        giveIPValue crossSectionValue e gp ist tStep = ([], 0))"
  by (simp add: giveIPValue_def split: option.split)

theorem giveIPValue_unsupported_is_empty_witness:
  "giveIPValue (\<lambda>gp ist tStep. if ist = (0::nat) then Some [real gp] else None)
      exampleElement 10 1 \<lparr>targetTime = 1\<rparr> = ([], 0)
   \<and> giveIPValue (\<lambda>gp ist tStep. if ist = (0::nat) then Some [real gp] else None)
      exampleElement 10 0 \<lparr>targetTime = 1\<rparr> = ([10], 1)"
  using giveIPValue_unsupported_is_empty [of "\<lambda>gp ist tStep. if ist = (0::nat) then Some [real gp] else None"
      exampleElement 10 1 "\<lparr>targetTime = 1\<rparr>"]
    giveIPValue_unsupported_is_empty [of "\<lambda>gp ist tStep. if ist = (0::nat) then Some [real gp] else None"
      exampleElement 10 0 "\<lparr>targetTime = 1\<rparr>"]
  by (simp add: giveIPValue_def)

end
